theory Spec2Isabelle
  imports Main "HOL-Library.Word"
begin

section \<open>The plugin registrar: client wrapper around the C messenger API\<close>

text \<open>
  A shallow embedding of \<^verbatim>\<open>shell/platform/common/cpp/client_wrapper/plugin_registrar.cc\<close>.
  Every C++ method becomes a function that takes the state it touches and returns it
  updated. Calls into the C API of the host are recorded, in order, in a trace.
  Modelled are the dispatch adaptor \<^verbatim>\<open>ForwardToHandler\<close>, the class
  \<^verbatim>\<open>BinaryMessengerImpl\<close> and \<^verbatim>\<open>TextureRegistrarImpl::RegisterTexture\<close>.
\<close>

subsection \<open>Pointers, machine integers and opaque handles\<close>

text \<open>A C pointer is null or holds an address (for an opaque handle: a token).\<close>

datatype 'a ptr = nullptr | Ptr 'a

text \<open>\<^verbatim>\<open>uint8_t\<close>, \<^verbatim>\<open>size_t\<close> (taken as 64 bits wide; the wrapper does no arithmetic
  on sizes) and \<^verbatim>\<open>int64_t\<close> (a word whose signed value is read with \<open>sint\<close>).\<close>

type_synonym addr = nat
type_synonym byte = "8 word"
type_synonym size_t = "64 word"
type_synonym int64_t = "64 word"

text \<open>\<^verbatim>\<open>FlutterDesktopMessengerRef\<close> and \<^verbatim>\<open>FlutterDesktopTextureRegistrarRef\<close>
  are opaque references handed out by the host.\<close>

type_synonym FlutterDesktopMessengerRef = nat
type_synonym FlutterDesktopTextureRegistrarRef = nat

text \<open>Reading through a pointer: a null or dangling pointer has no value.\<close>

definition deref :: "(addr \<rightharpoonup> 'a) \<Rightarrow> addr ptr \<Rightarrow> 'a option" where
  "deref mem p = (case p of nullptr \<Rightarrow> None | Ptr a \<Rightarrow> mem a)"

datatype fault = InvalidPointer | BadFunctionCall

text \<open>\<^verbatim>\<open>std::string::c_str()\<close>: the C API takes a channel name as \<^verbatim>\<open>const char*\<close>, and
  what the callee can read of it ends before the first NUL character.\<close>

definition c_str :: "string \<Rightarrow> string" where
  "c_str s = takeWhile (\<lambda>ch. ch \<noteq> CHR 0x00) s"

text \<open>The fields of \<^verbatim>\<open>FlutterDesktopMessage\<close> that the wrapper reads. A buffer
  pointer is modelled by the bytes it points to; the size travels beside it, as in C.
  The response handle is a pointer to an opaque struct of the host, and like every
  pointer it can be null.\<close>

record FlutterDesktopMessage =
  message :: "byte list"
  message_size :: size_t
  response_handle :: "nat ptr"

subsection \<open>The host side\<close>

text \<open>The only function whose address the messenger hands to the host as a message
  callback is \<^verbatim>\<open>ForwardToHandler\<close>; a function pointer is modelled by its name.\<close>

datatype FlutterDesktopMessageCallback = ForwardToHandler_fn

datatype api_call =
    MessengerSend FlutterDesktopMessengerRef string "byte list" size_t
  | MessengerSendResponse FlutterDesktopMessengerRef "nat ptr" "byte list" size_t
  | MessengerSetCallback FlutterDesktopMessengerRef string
      "FlutterDesktopMessageCallback ptr" "addr ptr"

text \<open>What a running handler can reach: the calls made so far into the C API (oldest
  first) and the lines written to \<^verbatim>\<open>std::cerr\<close>.\<close>

record trace =
  calls :: "api_call list"
  cerr :: "string list"

text \<open>The host: the callbacks it holds per messenger and channel, and the trace.\<close>

record host =
  callbacks :: "FlutterDesktopMessengerRef \<times> string \<rightharpoonup> FlutterDesktopMessageCallback \<times> addr ptr"
  log :: trace

text \<open>The C API of the host is declared in a header and implemented by the embedder;
  neither is among the sources. A call of one of its functions is recorded in the trace
  with its arguments. For sending a message and sending a response that is all the
  model says: what the host does with either is left open.\<close>

definition FlutterDesktopMessengerSend ::
  "FlutterDesktopMessengerRef \<Rightarrow> string \<Rightarrow> byte list \<Rightarrow> size_t \<Rightarrow> trace \<Rightarrow> trace" where
  "FlutterDesktopMessengerSend messenger channel msg msg_size t =
     t\<lparr>calls := calls t @ [MessengerSend messenger channel msg msg_size]\<rparr>"

definition FlutterDesktopMessengerSendResponse ::
  "FlutterDesktopMessengerRef \<Rightarrow> nat ptr \<Rightarrow> byte list \<Rightarrow> size_t \<Rightarrow> trace \<Rightarrow> trace" where
  "FlutterDesktopMessengerSendResponse messenger handle data data_length t =
     t\<lparr>calls := calls t @ [MessengerSendResponse messenger handle data data_length]\<rparr>"

text \<open>Modelled from the spec: what the host does on \<^verbatim>\<open>FlutterDesktopMessengerSetCallback\<close>,
  whose implementation is missing. Beside the record of the call, the host retains the
  callback and its context for the channel; a null callback removes the registration,
  after which the host drops inbound messages on the channel.\<close>

definition FlutterDesktopMessengerSetCallback ::
  "FlutterDesktopMessengerRef \<Rightarrow> string \<Rightarrow> FlutterDesktopMessageCallback ptr \<Rightarrow> addr ptr
     \<Rightarrow> host \<Rightarrow> host" where
  "FlutterDesktopMessengerSetCallback messenger channel callback user_data h =
     h\<lparr>callbacks :=
          (case callback of
             nullptr \<Rightarrow> (callbacks h)((messenger, channel) := None)
           | Ptr f \<Rightarrow> (callbacks h)((messenger, channel) \<mapsto> (f, user_data))),
       log := (log h)\<lparr>calls := calls (log h) @
          [MessengerSetCallback messenger channel callback user_data]\<rparr>\<rparr>"

subsection \<open>The reply closure\<close>

text \<open>\<^verbatim>\<open>BinaryReply\<close> is a \<^verbatim>\<open>std::function\<close> taking a byte pointer and a size. The
  only value the wrapper makes of it holds the lambda of \<^verbatim>\<open>ForwardToHandler\<close>: its state is the
  two captures \<^verbatim>\<open>[messenger, response_handle]\<close>, taken by value. The lambda is
  \<^verbatim>\<open>mutable\<close>: a call updates the captures of the closure it is made on, so a call
  returns the closure beside the trace. Copying a \<^verbatim>\<open>std::function\<close> copies the captures;
  in the model a copy is the same record value used again.\<close>

record BinaryReply =
  captured_messenger :: FlutterDesktopMessengerRef
  captured_response_handle :: "nat ptr"

definition duplicate_response_error :: string where
  "duplicate_response_error =
     ''Error: Response can be set only once. Ignoring duplicate response.''"

definition BinaryReply_call ::
  "BinaryReply \<Rightarrow> byte list \<Rightarrow> size_t \<Rightarrow> trace \<Rightarrow> BinaryReply \<times> trace" where
  "BinaryReply_call self reply reply_size t =
     (if captured_response_handle self = nullptr
      then (self, t\<lparr>cerr := cerr t @ [duplicate_response_error]\<rparr>)
      else (self\<lparr>captured_response_handle := nullptr\<rparr>,
            FlutterDesktopMessengerSendResponse (captured_messenger self)
              (captured_response_handle self) reply reply_size t))"

subsection \<open>Message handlers and the dispatch adaptor\<close>

text \<open>A \<^verbatim>\<open>BinaryMessageHandler\<close> is a \<^verbatim>\<open>std::function\<close>: empty (\<open>None\<close>) or a
  callable. The callable is plugin code: it receives the message bytes, their size and
  the reply closure, and acts on the plugin's own state \<open>'p\<close> and on the trace.\<close>

type_synonym 'p message_handler =
  "byte list \<Rightarrow> size_t \<Rightarrow> BinaryReply \<Rightarrow> 'p \<times> trace \<Rightarrow> 'p \<times> trace"

type_synonym 'p BinaryMessageHandler = "'p message_handler option"

definition ForwardToHandler ::
  "FlutterDesktopMessengerRef \<Rightarrow> FlutterDesktopMessage \<Rightarrow> addr ptr
     \<Rightarrow> (addr \<rightharpoonup> 'p BinaryMessageHandler) \<Rightarrow> 'p \<times> trace \<Rightarrow> fault + 'p \<times> trace" where
  "ForwardToHandler messenger msg user_data mem w =
     (let reply_handler =
            \<lparr>captured_messenger = messenger,
             captured_response_handle = response_handle msg\<rparr>
      in case deref mem user_data of
           None \<Rightarrow> Inl InvalidPointer
         | Some None \<Rightarrow> Inl BadFunctionCall
         | Some (Some message_handler) \<Rightarrow>
             Inr (message_handler (message msg) (message_size msg) reply_handler w))"

subsection \<open>BinaryMessengerImpl\<close>

text \<open>\<^verbatim>\<open>std::map<std::string, BinaryMessageHandler> handlers_\<close> is node based: every
  key owns a node, and the mapped value lives in that node until the key is erased.
  \<open>handlers_'\<close> gives the node of a key and \<open>nodes\<close> the value stored at a node address;
  \<open>next_node\<close> is the address the allocator hands out next: a new node never shares
  its address with a node that is alive. (A member name of the source ends in an
  underscore, which a constant's name cannot: a prime is appended.)\<close>

record 'p BinaryMessengerImpl =
  messenger_' :: FlutterDesktopMessengerRef
  handlers_' :: "string \<rightharpoonup> addr"
  nodes :: "addr \<rightharpoonup> 'p BinaryMessageHandler"
  next_node :: addr

definition BinaryMessengerImpl_new :: "FlutterDesktopMessengerRef \<Rightarrow> 'p BinaryMessengerImpl" where
  "BinaryMessengerImpl_new core_messenger =
     \<lparr>messenger_' = core_messenger, handlers_' = Map.empty, nodes = Map.empty, next_node = 0\<rparr>"

text \<open>\<^verbatim>\<open>handlers_.erase(channel)\<close>: the node of the key, if any, is destroyed.\<close>

definition handlers_erase :: "string \<Rightarrow> 'p BinaryMessengerImpl \<Rightarrow> 'p BinaryMessengerImpl" where
  "handlers_erase channel m =
     (case handlers_' m channel of
        None \<Rightarrow> m
      | Some a \<Rightarrow> m\<lparr>handlers_' := (handlers_' m)(channel := None), nodes := (nodes m)(a := None)\<rparr>)"

text \<open>\<^verbatim>\<open>handlers_[channel]\<close>: a reference to the mapped value of the key. A key that
  is absent gets a new node holding an empty function; a key that is present keeps
  its node.\<close>

definition handlers_subscript ::
  "string \<Rightarrow> 'p BinaryMessengerImpl \<Rightarrow> addr \<times> 'p BinaryMessengerImpl" where
  "handlers_subscript channel m =
     (case handlers_' m channel of
        Some a \<Rightarrow> (a, m)
      | None \<Rightarrow>
          (next_node m,
           m\<lparr>handlers_' := (handlers_' m)(channel \<mapsto> next_node m),
             nodes := (nodes m)(next_node m \<mapsto> None),
             next_node := Suc (next_node m)\<rparr>))"

definition Send ::
  "string \<Rightarrow> byte list \<Rightarrow> size_t \<Rightarrow> 'p BinaryMessengerImpl \<times> host \<Rightarrow> 'p BinaryMessengerImpl \<times> host" where
  "Send channel msg msg_size s =
     (case s of (m, h) \<Rightarrow>
        (m, h\<lparr>log := FlutterDesktopMessengerSend (messenger_' m) (c_str channel) msg msg_size
                      (log h)\<rparr>))"

text \<open>\<^verbatim>\<open>SetMessageHandler\<close>, statement by statement: the states that a call passes
  through, in the order of the source. With an empty handler these are the state after
  \<^verbatim>\<open>handlers_.erase(channel)\<close> and the state after the host has been told to drop the
  callback. Otherwise they are the state after \<^verbatim>\<open>handlers_[channel] = std::move(handler)\<close>,
  the state after \<^verbatim>\<open>message_handler = &handlers_[channel]\<close>, and the state after the
  adaptor has been registered with \<^verbatim>\<open>message_handler\<close> as its context. A host call is made
  in the state that precedes it in the list.\<close>

definition SetMessageHandler_states ::
  "string \<Rightarrow> 'p BinaryMessageHandler \<Rightarrow> 'p BinaryMessengerImpl \<times> host
     \<Rightarrow> ('p BinaryMessengerImpl \<times> host) list" where
  "SetMessageHandler_states channel handler s =
     (case s of (m, h) \<Rightarrow>
        (case handler of
           None \<Rightarrow>
             (let m1 = handlers_erase channel m
              in [(m1, h),
                  (m1, FlutterDesktopMessengerSetCallback (messenger_' m1) (c_str channel)
                         nullptr nullptr h)])
         | Some f \<Rightarrow>
             (let (a, m1) = handlers_subscript channel m;
                  m2 = m1\<lparr>nodes := (nodes m1)(a \<mapsto> Some f)\<rparr>;
                  (message_handler, m3) = handlers_subscript channel m2
              in [(m2, h),
                  (m3, h),
                  (m3, FlutterDesktopMessengerSetCallback (messenger_' m3) (c_str channel)
                         (Ptr ForwardToHandler_fn) (Ptr message_handler) h)])))"

text \<open>The call returns in the last of these states.\<close>

definition SetMessageHandler ::
  "string \<Rightarrow> 'p BinaryMessageHandler \<Rightarrow> 'p BinaryMessengerImpl \<times> host
     \<Rightarrow> 'p BinaryMessengerImpl \<times> host" where
  "SetMessageHandler channel handler s = last (SetMessageHandler_states channel handler s)"

text \<open>The look-up that the map offers: the handler stored for a channel.\<close>

definition handler_of :: "'p BinaryMessengerImpl \<Rightarrow> string \<Rightarrow> 'p BinaryMessageHandler option" where
  "handler_of m channel =
     (case handlers_' m channel of None \<Rightarrow> None | Some a \<Rightarrow> nodes m a)"

text \<open>The shape of the map in every state the class can be in: each key has a node
  of its own, allocated earlier and still alive.\<close>

definition wf_handlers :: "'p BinaryMessengerImpl \<Rightarrow> bool" where
  "wf_handlers m \<longleftrightarrow>
     (\<forall>c a. handlers_' m c = Some a \<longrightarrow> a < next_node m \<and> nodes m a \<noteq> None) \<and>
     (\<forall>c d a. handlers_' m c = Some a \<and> handlers_' m d = Some a \<longrightarrow> c = d)"

subsection \<open>Inbound messages\<close>

text \<open>The outcome of an inbound message: dropped by the host, or handed to a callback
  that returned the state \<open>'w\<close>.\<close>

datatype 'w delivery = Dropped | Dispatched 'w

text \<open>Modelled from the spec: the host's dispatch of an inbound message, which is missing
  from the sources. The host looks the channel up among the callbacks it retains;
  without a registration the message is dropped, otherwise the callback is called with
  the messenger, the message and the retained context pointer. The context is read
  from the memory of the messenger object.\<close>

definition host_deliver ::
  "'p BinaryMessengerImpl \<Rightarrow> FlutterDesktopMessengerRef \<Rightarrow> string \<Rightarrow> FlutterDesktopMessage
     \<Rightarrow> 'p \<times> host \<Rightarrow> fault + ('p \<times> host) delivery" where
  "host_deliver m messenger channel msg w =
     (case w of (p, h) \<Rightarrow>
        (case callbacks h (messenger, channel) of
           None \<Rightarrow> Inr Dropped
         | Some (ForwardToHandler_fn, user_data) \<Rightarrow>
             (case ForwardToHandler messenger msg user_data (nodes m) (p, log h) of
                Inl e \<Rightarrow> Inl e
              | Inr (p', t') \<Rightarrow> Inr (Dispatched (p', h\<lparr>log := t'\<rparr>)))))"

subsection \<open>TextureRegistrarImpl\<close>

text \<open>A \<^verbatim>\<open>Texture\<close> is an object with the virtual method \<^verbatim>\<open>CopyPixelBuffer\<close>; \<open>'b\<close>
  is what the method returns (a pointer to a pixel buffer).\<close>

record 'b Texture =
  CopyPixelBuffer :: "size_t \<Rightarrow> size_t \<Rightarrow> 'b"

record TextureRegistrarImpl =
  texture_registrar_ref_' :: FlutterDesktopTextureRegistrarRef

text \<open>The lambda \<^verbatim>\<open>callback\<close> of \<^verbatim>\<open>RegisterTexture\<close>: it captures nothing and casts
  its context to \<^verbatim>\<open>Texture*\<close>. The memory holding the texture objects is a parameter.\<close>

definition callback :: "(addr \<rightharpoonup> 'b Texture) \<Rightarrow> size_t \<Rightarrow> size_t \<Rightarrow> addr ptr \<Rightarrow> fault + 'b" where
  "callback mem width height user_data =
     (case deref mem user_data of
        None \<Rightarrow> Inl InvalidPointer
      | Some texture \<Rightarrow> Inr (CopyPixelBuffer texture width height))"

text \<open>\<^verbatim>\<open>FlutterDesktopRegisterExternalTexture\<close> belongs to the host and is not among the
  sources: it is a parameter, a function of the registrar reference, the callback, the
  context and the host state \<open>'h\<close> that returns the identifier and the new host state.\<close>

definition RegisterTexture ::
  "(FlutterDesktopTextureRegistrarRef \<Rightarrow> ((addr \<rightharpoonup> 'b Texture) \<Rightarrow> size_t \<Rightarrow> size_t \<Rightarrow> addr ptr \<Rightarrow> fault + 'b)
      \<Rightarrow> addr ptr \<Rightarrow> 'h \<Rightarrow> int64_t \<times> 'h)
     \<Rightarrow> TextureRegistrarImpl \<Rightarrow> addr ptr \<Rightarrow> 'h \<Rightarrow> int64_t \<times> 'h" where
  "RegisterTexture FlutterDesktopRegisterExternalTexture self texture h =
     (let (texture_id, h') =
            FlutterDesktopRegisterExternalTexture (texture_registrar_ref_' self) callback texture h
      in (texture_id, h'))"

subsection \<open>Sequences of registrations\<close>

text \<open>Later calls of \<^verbatim>\<open>SetMessageHandler\<close>, in the order they are made.\<close>

fun SetMessageHandler_calls ::
  "(string \<times> 'p BinaryMessageHandler) list \<Rightarrow> 'p BinaryMessengerImpl \<times> host
     \<Rightarrow> 'p BinaryMessengerImpl \<times> host" where
  "SetMessageHandler_calls [] s = s"
| "SetMessageHandler_calls ((channel, handler) # rest) s =
     SetMessageHandler_calls rest (SetMessageHandler channel handler s)"

text \<open>The entry of channel \<open>c\<close> lives at address \<open>a\<close> and holds a callable.\<close>

definition entry_live :: "string \<Rightarrow> addr \<Rightarrow> 'p BinaryMessengerImpl \<Rightarrow> bool" where
  "entry_live c a m \<longleftrightarrow>
     wf_handlers m \<and> handlers_' m c = Some a \<and> (\<exists>f. nodes m a = Some (Some f))"

text \<open>Every context pointer that the host retains for this messenger is the address of
  the live entry of a channel with that C name, and the entry holds a callable: the
  host can dereference what it retains.\<close>

definition contexts_valid :: "'p BinaryMessengerImpl \<times> host \<Rightarrow> bool" where
  "contexts_valid s \<longleftrightarrow>
     wf_handlers (fst s) \<and>
     (\<forall>k cb u. callbacks (snd s) (messenger_' (fst s), k) = Some (cb, u) \<longrightarrow>
        (\<exists>c a f. u = Ptr a \<and> c_str c = k \<and> handlers_' (fst s) c = Some a \<and>
                 nodes (fst s) a = Some (Some f)))"

subsection \<open>Sample inputs\<close>

text \<open>Concrete inputs at which the theorems below are evaluated: a host at start-up
  and plugin handlers. They stand for plugin code and are no part of the wrapper.\<close>

definition host_new :: host where
  "host_new = \<lparr>callbacks = Map.empty, log = \<lparr>calls = [], cerr = []\<rparr>\<rparr>"

text \<open>A handler that notes what it was called with.\<close>

definition recording_handler :: "(byte list \<times> size_t \<times> BinaryReply) list message_handler" where
  "recording_handler msg msg_size reply w = (fst w @ [(msg, msg_size, reply)], snd w)"

text \<open>A handler that leaves its tag in the plugin state.\<close>

definition tagging_handler :: "string \<Rightarrow> string list message_handler" where
  "tagging_handler tag msg msg_size reply w = (fst w @ [tag], snd w)"

text \<open>A handler that replies twice through the closure it was given.\<close>

definition reply_twice_handler ::
  "byte list \<Rightarrow> size_t \<Rightarrow> byte list \<Rightarrow> size_t \<Rightarrow> 'p message_handler" where
  "reply_twice_handler b1 n1 b2 n2 msg msg_size reply w =
     (case BinaryReply_call reply b1 n1 (snd w) of
        (reply', t1) \<Rightarrow> (fst w, snd (BinaryReply_call reply' b2 n2 t1)))"

text \<open>A handler that copies the closure first and replies once through each copy.\<close>

definition reply_on_copy_handler ::
  "byte list \<Rightarrow> size_t \<Rightarrow> byte list \<Rightarrow> size_t \<Rightarrow> 'p message_handler" where
  "reply_on_copy_handler b1 n1 b2 n2 msg msg_size reply w =
     (let copy = reply
      in case BinaryReply_call reply b1 n1 (snd w) of
           (reply', t1) \<Rightarrow> (fst w, snd (BinaryReply_call copy b2 n2 t1)))"

text \<open>A handler that keeps the closure in the plugin state and returns without replying.\<close>

definition deferring_handler :: "BinaryReply option message_handler" where
  "deferring_handler msg msg_size reply w = (Some reply, snd w)"

section \<open>Properties\<close>

subsection \<open>How the operations compute\<close>

lemma c_str_no_NUL: "CHR 0x00 \<notin> set s \<Longrightarrow> c_str s = s"
  by (auto simp: c_str_def takeWhile_eq_all_conv)

lemma c_str_ping [simp]: "c_str ''ping'' = ''ping''"
  by (simp add: c_str_def)

lemma c_str_pong [simp]: "c_str ''pong'' = ''pong''"
  by (simp add: c_str_def)

lemma BinaryReply_call_first:
  "rh \<noteq> nullptr \<Longrightarrow>
   BinaryReply_call \<lparr>captured_messenger = ref, captured_response_handle = rh\<rparr> b n t =
     (\<lparr>captured_messenger = ref, captured_response_handle = nullptr\<rparr>,
      t\<lparr>calls := calls t @ [MessengerSendResponse ref rh b n]\<rparr>)"
  by (simp add: BinaryReply_call_def FlutterDesktopMessengerSendResponse_def)

lemma BinaryReply_call_consumed:
  "BinaryReply_call \<lparr>captured_messenger = ref, captured_response_handle = nullptr\<rparr> b n t =
     (\<lparr>captured_messenger = ref, captured_response_handle = nullptr\<rparr>,
      t\<lparr>cerr := cerr t @ [duplicate_response_error]\<rparr>)"
  by (simp add: BinaryReply_call_def)

lemma ForwardToHandler_stored:
  "mem a = Some (Some f) \<Longrightarrow>
   ForwardToHandler ref msg (Ptr a) mem w =
     Inr (f (message msg) (message_size msg)
            \<lparr>captured_messenger = ref, captured_response_handle = response_handle msg\<rparr> w)"
  by (simp add: ForwardToHandler_def deref_def)

text \<open>The state in which \<open>SetMessageHandler\<close> returns, written out.\<close>

lemma SetMessageHandler_unfold:
  "SetMessageHandler channel handler s =
     (case s of (m, h) \<Rightarrow>
        (case handler of
           None \<Rightarrow>
             (let m1 = handlers_erase channel m
              in (m1, FlutterDesktopMessengerSetCallback (messenger_' m1) (c_str channel)
                        nullptr nullptr h))
         | Some f \<Rightarrow>
             (let (a, m1) = handlers_subscript channel m;
                  m2 = m1\<lparr>nodes := (nodes m1)(a \<mapsto> Some f)\<rparr>;
                  (message_handler, m3) = handlers_subscript channel m2
              in (m3, FlutterDesktopMessengerSetCallback (messenger_' m3) (c_str channel)
                        (Ptr ForwardToHandler_fn) (Ptr message_handler) h))))"
  by (simp add: SetMessageHandler_def SetMessageHandler_states_def Let_def
      split: prod.splits option.splits)

lemma SetMessageHandler_present:
  "handlers_' m c = Some a \<Longrightarrow>
   SetMessageHandler c (Some f) (m, h) =
     (m\<lparr>nodes := (nodes m)(a \<mapsto> Some f)\<rparr>,
      FlutterDesktopMessengerSetCallback (messenger_' m) (c_str c) (Ptr ForwardToHandler_fn) (Ptr a) h)"
  by (simp add: SetMessageHandler_unfold handlers_subscript_def)

lemma SetMessageHandler_absent:
  "handlers_' m c = None \<Longrightarrow>
   SetMessageHandler c (Some f) (m, h) =
     (m\<lparr>handlers_' := (handlers_' m)(c \<mapsto> next_node m),
        nodes := (nodes m)(next_node m \<mapsto> Some f),
        next_node := Suc (next_node m)\<rparr>,
      FlutterDesktopMessengerSetCallback (messenger_' m) (c_str c) (Ptr ForwardToHandler_fn)
        (Ptr (next_node m)) h)"
  by (simp add: SetMessageHandler_unfold handlers_subscript_def)

lemma SetMessageHandler_empty:
  "SetMessageHandler c None (m, h) =
     (handlers_erase c m,
      FlutterDesktopMessengerSetCallback (messenger_' m) (c_str c) nullptr nullptr h)"
  by (simp add: SetMessageHandler_unfold handlers_erase_def split: option.splits)

lemma SetMessageHandler_states_present:
  "handlers_' m c = Some a \<Longrightarrow>
   SetMessageHandler_states c (Some f) (m, h) =
     [(m\<lparr>nodes := (nodes m)(a \<mapsto> Some f)\<rparr>, h),
      (m\<lparr>nodes := (nodes m)(a \<mapsto> Some f)\<rparr>, h),
      (m\<lparr>nodes := (nodes m)(a \<mapsto> Some f)\<rparr>,
       FlutterDesktopMessengerSetCallback (messenger_' m) (c_str c) (Ptr ForwardToHandler_fn) (Ptr a) h)]"
  by (simp add: SetMessageHandler_states_def handlers_subscript_def Let_def)

lemma SetMessageHandler_states_absent:
  "handlers_' m c = None \<Longrightarrow>
   SetMessageHandler_states c (Some f) (m, h) =
     [(m\<lparr>handlers_' := (handlers_' m)(c \<mapsto> next_node m),
         nodes := (nodes m)(next_node m \<mapsto> Some f),
         next_node := Suc (next_node m)\<rparr>, h),
      (m\<lparr>handlers_' := (handlers_' m)(c \<mapsto> next_node m),
         nodes := (nodes m)(next_node m \<mapsto> Some f),
         next_node := Suc (next_node m)\<rparr>, h),
      (m\<lparr>handlers_' := (handlers_' m)(c \<mapsto> next_node m),
         nodes := (nodes m)(next_node m \<mapsto> Some f),
         next_node := Suc (next_node m)\<rparr>,
       FlutterDesktopMessengerSetCallback (messenger_' m) (c_str c) (Ptr ForwardToHandler_fn)
         (Ptr (next_node m)) h)]"
  by (simp add: SetMessageHandler_states_def handlers_subscript_def Let_def)

lemma SetMessageHandler_states_Some:
  assumes "SetMessageHandler c (Some f) (m, h) = (m', h')"
  shows "SetMessageHandler_states c (Some f) (m, h) = [(m', h), (m', h), (m', h')]"
proof (cases "handlers_' m c")
  case None
  with assms show ?thesis
    by (simp add: SetMessageHandler_def SetMessageHandler_states_absent)
next
  case (Some a)
  with assms show ?thesis
    by (simp add: SetMessageHandler_def SetMessageHandler_states_present)
qed

lemma SetMessageHandler_messenger:
  "messenger_' (fst (SetMessageHandler c handler (m, h))) = messenger_' m"
  by (cases handler; cases "handlers_' m c")
     (simp_all add: SetMessageHandler_empty SetMessageHandler_absent SetMessageHandler_present
        handlers_erase_def)

lemma SetMessageHandler_host:
  "snd (SetMessageHandler d x (m, h)) =
     (case x of
        None \<Rightarrow> FlutterDesktopMessengerSetCallback (messenger_' m) (c_str d) nullptr nullptr h
      | Some f \<Rightarrow> FlutterDesktopMessengerSetCallback (messenger_' m) (c_str d) (Ptr ForwardToHandler_fn)
          (Ptr (case handlers_' m d of None \<Rightarrow> next_node m | Some a \<Rightarrow> a)) h)"
  by (cases x; cases "handlers_' m d")
     (simp_all add: SetMessageHandler_empty SetMessageHandler_absent SetMessageHandler_present)

lemma callbacks_SetCallback:
  "callbacks (FlutterDesktopMessengerSetCallback ref c (Ptr f) u h) (ref, c) = Some (f, u)"
  "callbacks (FlutterDesktopMessengerSetCallback ref c nullptr u h) (ref, c) = None"
  "log (FlutterDesktopMessengerSetCallback ref c cb u h) =
     (log h)\<lparr>calls := calls (log h) @ [MessengerSetCallback ref c cb u]\<rparr>"
  by (simp_all add: FlutterDesktopMessengerSetCallback_def)

lemma callbacks_SetCallback_other:
  "k \<noteq> c \<Longrightarrow> callbacks (FlutterDesktopMessengerSetCallback ref c cb u h) (ref, k) = callbacks h (ref, k)"
  by (cases cb) (simp_all add: FlutterDesktopMessengerSetCallback_def)

lemma SetMessageHandler_registers:
  assumes "SetMessageHandler c (Some f) (m, h) = (m', h')"
  shows "\<exists>a. handlers_' m' c = Some a \<and> nodes m' a = Some (Some f) \<and>
             (handlers_' m c = Some a \<or> handlers_' m c = None \<and> a = next_node m) \<and>
             messenger_' m' = messenger_' m \<and>
             h' = FlutterDesktopMessengerSetCallback (messenger_' m) (c_str c)
                    (Ptr ForwardToHandler_fn) (Ptr a) h"
proof (cases "handlers_' m c")
  case None
  with assms show ?thesis by (auto simp: SetMessageHandler_absent)
next
  case (Some a)
  with assms show ?thesis by (auto simp: SetMessageHandler_present)
qed

lemma SetMessageHandler_new_eval:
  "SetMessageHandler ''ping'' (Some f) (BinaryMessengerImpl_new ref, host_new) =
    (\<lparr>messenger_' = ref, handlers_' = [''ping'' \<mapsto> 0], nodes = [0 \<mapsto> Some f], next_node = Suc 0\<rparr>,
     \<lparr>callbacks = [(ref, ''ping'') \<mapsto> (ForwardToHandler_fn, Ptr 0)],
      log = \<lparr>calls = [MessengerSetCallback ref ''ping'' (Ptr ForwardToHandler_fn) (Ptr 0)],
             cerr = []\<rparr>\<rparr>)"
  by (simp add: SetMessageHandler_absent BinaryMessengerImpl_new_def host_new_def
      FlutterDesktopMessengerSetCallback_def)

lemma host_deliver_registered:
  "callbacks h (ref, k) = Some (ForwardToHandler_fn, Ptr a) \<Longrightarrow> nodes m a = Some (Some f) \<Longrightarrow>
   host_deliver m ref k msg (p, h) =
     (case f (message msg) (message_size msg)
             \<lparr>captured_messenger = ref, captured_response_handle = response_handle msg\<rparr> (p, log h)
      of (p', t') \<Rightarrow> Inr (Dispatched (p', h\<lparr>log := t'\<rparr>)))"
  by (simp add: host_deliver_def ForwardToHandler_stored split: prod.splits)

subsection \<open>The map stays well-formed, and the host's contexts stay valid\<close>

lemma wf_handlers_new: "wf_handlers (BinaryMessengerImpl_new ref)"
  by (simp add: wf_handlers_def BinaryMessengerImpl_new_def)

lemma wf_handlers_erase: "wf_handlers m \<Longrightarrow> wf_handlers (handlers_erase c m)"
  unfolding wf_handlers_def handlers_erase_def
  by (auto split: option.splits)

lemma wf_handlers_SetMessageHandler:
  assumes "wf_handlers m"
  shows "wf_handlers (fst (SetMessageHandler c handler (m, h)))"
proof (cases handler)
  case None
  then show ?thesis using assms by (simp add: SetMessageHandler_empty wf_handlers_erase)
next
  case (Some f)
  show ?thesis
  proof (cases "handlers_' m c")
    case None
    then show ?thesis using assms Some
      unfolding wf_handlers_def
      by (auto simp: SetMessageHandler_absent less_Suc_eq split: if_splits)
  next
    case (Some a)
    then show ?thesis using assms \<open>handler = Some f\<close>
      unfolding wf_handlers_def
      by (auto simp: SetMessageHandler_present)
  qed
qed

lemma SetMessageHandler_other_channel:
  assumes "wf_handlers m" and "d \<noteq> c"
  shows "handlers_' (fst (SetMessageHandler c handler (m, h))) d = handlers_' m d \<and>
         (\<forall>a. handlers_' m d = Some a \<longrightarrow>
            nodes (fst (SetMessageHandler c handler (m, h))) a = nodes m a)"
proof (cases handler)
  case None
  show ?thesis
  proof (cases "handlers_' m c")
    case None
    with \<open>handler = None\<close> assms show ?thesis
      by (simp add: SetMessageHandler_empty handlers_erase_def)
  next
    case (Some b)
    with \<open>handler = None\<close> assms show ?thesis
      unfolding wf_handlers_def
      by (auto simp: SetMessageHandler_empty handlers_erase_def)
  qed
next
  case (Some f)
  show ?thesis
  proof (cases "handlers_' m c")
    case None
    with \<open>handler = Some f\<close> assms show ?thesis
      unfolding wf_handlers_def
      by (auto simp: SetMessageHandler_absent)
  next
    case (Some b)
    with \<open>handler = Some f\<close> assms show ?thesis
      unfolding wf_handlers_def
      by (auto simp: SetMessageHandler_present)
  qed
qed

lemma entry_live_step:
  assumes live: "entry_live c a m" and keep: "d = c \<longrightarrow> x \<noteq> None"
  shows "entry_live c a (fst (SetMessageHandler d x (m, h)))"
proof -
  from live have wf: "wf_handlers m" and ca: "handlers_' m c = Some a"
    by (simp_all add: entry_live_def)
  from live obtain f where f: "nodes m a = Some (Some f)"
    by (auto simp: entry_live_def)
  have wf': "wf_handlers (fst (SetMessageHandler d x (m, h)))"
    by (rule wf_handlers_SetMessageHandler [OF wf])
  show ?thesis
  proof (cases "d = c")
    case True
    with keep obtain f2 where x: "x = Some f2" by auto
    have "fst (SetMessageHandler d x (m, h)) = m\<lparr>nodes := (nodes m)(a \<mapsto> Some f2)\<rparr>"
      using True x ca by (simp add: SetMessageHandler_present)
    with wf' ca show ?thesis
      by (simp add: entry_live_def)
  next
    case False
    then have "c \<noteq> d" by simp
    from SetMessageHandler_other_channel [OF wf this, of x h] wf' ca f show ?thesis
      by (simp add: entry_live_def)
  qed
qed

lemma entry_live_calls:
  assumes "entry_live c a (fst s)" and "\<forall>(d, x) \<in> set ops. d = c \<longrightarrow> x \<noteq> None"
  shows "entry_live c a (fst (SetMessageHandler_calls ops s))"
  using assms
proof (induction ops arbitrary: s)
  case Nil
  then show ?case by simp
next
  case (Cons op ops)
  obtain d x where op: "op = (d, x)" by (cases op)
  obtain m h where s: "s = (m, h)" by (cases s)
  from Cons.prems(2) op have keep: "d = c \<longrightarrow> x \<noteq> None" by simp
  from Cons.prems(1) s have "entry_live c a m" by simp
  then have "entry_live c a (fst (SetMessageHandler d x s))"
    unfolding s by (rule entry_live_step [OF _ keep])
  moreover from Cons.prems(2) have "\<forall>(d, x) \<in> set ops. d = c \<longrightarrow> x \<noteq> None" by simp
  ultimately show ?case
    using Cons.IH op by simp
qed

lemma contexts_valid_step:
  assumes valid: "contexts_valid s"
  shows "contexts_valid (SetMessageHandler d x s)"
proof -
  obtain m h where s: "s = (m, h)" by (cases s)
  from valid s have wf: "wf_handlers m"
    and ctx: "\<And>k cb u. callbacks h (messenger_' m, k) = Some (cb, u) \<Longrightarrow>
       \<exists>c a f. u = Ptr a \<and> c_str c = k \<and> handlers_' m c = Some a \<and> nodes m a = Some (Some f)"
    by (auto simp: contexts_valid_def)
  let ?m' = "fst (SetMessageHandler d x (m, h))" and ?h' = "snd (SetMessageHandler d x (m, h))"
  have wf': "wf_handlers ?m'"
    by (rule wf_handlers_SetMessageHandler [OF wf])
  have ref: "messenger_' ?m' = messenger_' m"
    by (rule SetMessageHandler_messenger)
  have "\<exists>c a f. u = Ptr a \<and> c_str c = k \<and> handlers_' ?m' c = Some a \<and> nodes ?m' a = Some (Some f)"
    if reg: "callbacks ?h' (messenger_' m, k) = Some (cb, u)" for k cb u
  proof (cases "k = c_str d")
    case True
    show ?thesis
    proof (cases x)
      case None
      with reg True show ?thesis
        by (simp add: SetMessageHandler_host callbacks_SetCallback)
    next
      case (Some f)
      from SetMessageHandler_registers [of d f m h ?m' ?h'] obtain a where
        a: "handlers_' ?m' d = Some a" "nodes ?m' a = Some (Some f)"
        and h': "?h' = FlutterDesktopMessengerSetCallback (messenger_' m) (c_str d)
                    (Ptr ForwardToHandler_fn) (Ptr a) h"
        unfolding Some by auto
      from reg [unfolded h'] True have "u = Ptr a"
        by (simp add: callbacks_SetCallback)
      with a True show ?thesis by blast
    qed
  next
    case False
    then have "callbacks ?h' (messenger_' m, k) = callbacks h (messenger_' m, k)"
      by (simp add: SetMessageHandler_host callbacks_SetCallback_other split: option.splits)
    with reg ctx obtain c a f where
      old: "u = Ptr a" "c_str c = k" "handlers_' m c = Some a" "nodes m a = Some (Some f)"
      by metis
    from old(2) False have "c \<noteq> d" by auto
    from SetMessageHandler_other_channel [OF wf this, of x h] old show ?thesis
      by auto
  qed
  with wf' ref show ?thesis
    by (simp add: contexts_valid_def s)
qed

text \<open>Between the store and the registration the host's contexts are valid as well: the
  host still holds what it held, and the store has left a callable at every entry.\<close>

lemma contexts_valid_stored:
  assumes valid: "contexts_valid (m, h)"
  shows "contexts_valid (fst (SetMessageHandler d (Some f) (m, h)), h)"
proof -
  from valid have wf: "wf_handlers m"
    and ctx: "\<And>k cb u. callbacks h (messenger_' m, k) = Some (cb, u) \<Longrightarrow>
       \<exists>c a g. u = Ptr a \<and> c_str c = k \<and> handlers_' m c = Some a \<and> nodes m a = Some (Some g)"
    by (auto simp: contexts_valid_def)
  let ?m' = "fst (SetMessageHandler d (Some f) (m, h))"
  have wf': "wf_handlers ?m'"
    by (rule wf_handlers_SetMessageHandler [OF wf])
  have ref: "messenger_' ?m' = messenger_' m"
    by (rule SetMessageHandler_messenger)
  from SetMessageHandler_registers [of d f m h ?m' "snd (SetMessageHandler d (Some f) (m, h))"]
  obtain b where b: "handlers_' ?m' d = Some b" "nodes ?m' b = Some (Some f)"
    and was: "handlers_' m d = Some b \<or> handlers_' m d = None \<and> b = next_node m"
    by auto
  have "\<exists>c a g. u = Ptr a \<and> c_str c = k \<and> handlers_' ?m' c = Some a \<and> nodes ?m' a = Some (Some g)"
    if reg: "callbacks h (messenger_' m, k) = Some (cb, u)" for k cb u
  proof -
    from ctx [OF reg] obtain c a g where
      old: "u = Ptr a" "c_str c = k" "handlers_' m c = Some a" "nodes m a = Some (Some g)"
      by blast
    show ?thesis
    proof (cases "c = d")
      case True
      with old was have "a = b" by auto
      with b old True show ?thesis by blast
    next
      case False
      from SetMessageHandler_other_channel [OF wf False, of "Some f" h] old show ?thesis
        by auto
    qed
  qed
  with wf' ref show ?thesis
    by (simp add: contexts_valid_def)
qed

lemma contexts_valid_calls:
  "contexts_valid s \<Longrightarrow> contexts_valid (SetMessageHandler_calls ops s)"
proof (induction ops arbitrary: s)
  case Nil
  then show ?case by simp
next
  case (Cons op ops)
  obtain d x where op: "op = (d, x)" by (cases op)
  from Cons.prems have "contexts_valid (SetMessageHandler d x s)"
    by (rule contexts_valid_step)
  then show ?case
    using Cons.IH op by simp
qed

lemma contexts_valid_new: "contexts_valid (BinaryMessengerImpl_new ref, host_new)"
  by (simp add: contexts_valid_def wf_handlers_new host_new_def)

text \<open>Every state that calls of \<open>SetMessageHandler\<close> reach from a new messenger is
  well-formed, whatever the host holds.\<close>

lemma wf_handlers_calls:
  "wf_handlers (fst s) \<Longrightarrow> wf_handlers (fst (SetMessageHandler_calls ops s))"
proof (induction ops arbitrary: s)
  case Nil
  then show ?case by simp
next
  case (Cons op ops)
  obtain d x where op: "op = (d, x)" by (cases op)
  obtain m h where s: "s = (m, h)" by (cases s)
  from Cons.prems s have "wf_handlers (fst (SetMessageHandler d x s))"
    by (simp add: wf_handlers_SetMessageHandler)
  then show ?case
    using Cons.IH op by simp
qed

lemma wf_handlers_reachable:
  "wf_handlers (fst (SetMessageHandler_calls ops (BinaryMessengerImpl_new ref, h)))"
  by (rule wf_handlers_calls) (simp add: wf_handlers_new)

subsection \<open>Sending\<close>

text \<open>C7: for every channel name, byte buffer and length, \<open>Send\<close> makes exactly one call
  of the host's send function, on the channel that the name designates as a C string
  and with those bytes and that length, whatever they are. It returns nothing beside
  the state and makes no other call, so it waits for no reply; the messenger, the
  callbacks that the host retains and the diagnostics are as before.\<close>

theorem Send_forwards_only:
  "Send channel msg msg_size (m, h) =
     (m, h\<lparr>log := (log h)\<lparr>calls := calls (log h) @
        [MessengerSend (messenger_' m) (c_str channel) msg msg_size]\<rparr>\<rparr>)"
  by (simp add: Send_def FlutterDesktopMessengerSend_def)

subsection \<open>The reply closure\<close>

text \<open>C1, as amended: the adaptor hands the handler a closure over the messenger and the
  message's response handle. When that handle is not null, the first call of the
  closure makes one send-response call with the given bytes and length and leaves the
  closure with a null handle; every later call of that closure, at any time, makes no
  call into the host and writes the duplicate-response diagnostic. (A closure whose
  handle is null from the start is in the second case at once.)\<close>

theorem reply_sends_once_then_refuses:
  assumes "mem a = Some (Some f)"
  shows "ForwardToHandler ref msg (Ptr a) mem w =
           Inr (f (message msg) (message_size msg)
                  \<lparr>captured_messenger = ref, captured_response_handle = response_handle msg\<rparr> w) \<and>
         (response_handle msg \<noteq> nullptr \<longrightarrow>
            BinaryReply_call
              \<lparr>captured_messenger = ref, captured_response_handle = response_handle msg\<rparr> b1 n1 t =
              (\<lparr>captured_messenger = ref, captured_response_handle = nullptr\<rparr>,
               t\<lparr>calls := calls t @ [MessengerSendResponse ref (response_handle msg) b1 n1]\<rparr>)) \<and>
         BinaryReply_call \<lparr>captured_messenger = ref, captured_response_handle = nullptr\<rparr> b2 n2 t' =
           (\<lparr>captured_messenger = ref, captured_response_handle = nullptr\<rparr>,
            t'\<lparr>cerr := cerr t' @ [duplicate_response_error]\<rparr>)"
  using assms
  by (simp add: ForwardToHandler_stored BinaryReply_call_first BinaryReply_call_consumed)

text \<open>At a message with response handle 9, a handler that replies twice causes one
  send-response call and one diagnostic.\<close>

theorem reply_sends_once_then_refuses_witness:
  "ForwardToHandler 7
     \<lparr>message = [0x70, 0x69, 0x6E, 0x67], message_size = 4, response_handle = Ptr 9\<rparr> (Ptr 0)
     [0 \<mapsto> Some (reply_twice_handler [0x70, 0x6F, 0x6E, 0x67] 4 [0x21] 1)]
     ((), \<lparr>calls = [], cerr = []\<rparr>) =
   Inr ((), \<lparr>calls = [MessengerSendResponse 7 (Ptr 9) [0x70, 0x6F, 0x6E, 0x67] 4],
             cerr = [duplicate_response_error]\<rparr>)"
  using reply_sends_once_then_refuses [where
      mem = "[0 \<mapsto> Some (reply_twice_handler [0x70, 0x6F, 0x6E, 0x67] 4 [0x21] 1)]" and a = 0
      and f = "reply_twice_handler [0x70, 0x6F, 0x6E, 0x67] 4 [0x21] 1" and ref = 7
      and msg = "\<lparr>message = [0x70, 0x69, 0x6E, 0x67], message_size = 4, response_handle = Ptr 9\<rparr>"
      and w = "((), \<lparr>calls = [], cerr = []\<rparr>)"
      and ?b1.0 = "[0x70, 0x6F, 0x6E, 0x67]" and ?n1.0 = 4 and t = "\<lparr>calls = [], cerr = []\<rparr>"
      and ?b2.0 = "[0x21]" and ?n2.0 = 1
      and t' = "\<lparr>calls = [MessengerSendResponse 7 (Ptr 9) [0x70, 0x6F, 0x6E, 0x67] 4], cerr = []\<rparr>"]
  by (simp add: reply_twice_handler_def)

text \<open>The claim as first stated, for every inbound message, fails at a message whose
  response handle is null: the closure is called twice, nothing is sent, and the
  diagnostic is written both times.\<close>

theorem reply_on_null_handle_counterexample:
  "ForwardToHandler 7
     \<lparr>message = [0x70, 0x69, 0x6E, 0x67], message_size = 4, response_handle = nullptr\<rparr> (Ptr 0)
     [0 \<mapsto> Some (reply_twice_handler [0x70, 0x6F, 0x6E, 0x67] 4 [0x21] 1)]
     ((), \<lparr>calls = [], cerr = []\<rparr>) =
   Inr ((), \<lparr>calls = [], cerr = [duplicate_response_error, duplicate_response_error]\<rparr>)"
  by (simp add: ForwardToHandler_stored reply_twice_handler_def BinaryReply_call_consumed)

text \<open>C6, as amended: let a handler return, for a message whose response handle is not
  null, having saved the closure it was given where \<open>stored\<close> finds it, whatever else the
  handler did. Then the adaptor returns what the handler returned and adds nothing to
  it, and calling the saved closure later, at whatever trace \<open>t'\<close> the world has reached,
  makes exactly one send-response call with the bytes and length supplied then. The
  closure so consumed sends nothing when called again.\<close>

theorem deferred_reply_sends_once:
  assumes "mem a = Some (Some f)"
    and "f (message msg) (message_size msg)
           \<lparr>captured_messenger = ref, captured_response_handle = response_handle msg\<rparr> w =
           (p', t1)"
    and "stored p' =
           Some \<lparr>captured_messenger = ref, captured_response_handle = response_handle msg\<rparr>"
    and "response_handle msg \<noteq> nullptr"
  shows "ForwardToHandler ref msg (Ptr a) mem w = Inr (p', t1) \<and>
         (\<exists>reply. stored p' = Some reply \<and>
            BinaryReply_call reply b n t' =
              (\<lparr>captured_messenger = ref, captured_response_handle = nullptr\<rparr>,
               t'\<lparr>calls := calls t' @ [MessengerSendResponse ref (response_handle msg) b n]\<rparr>)) \<and>
         BinaryReply_call \<lparr>captured_messenger = ref, captured_response_handle = nullptr\<rparr> b2 n2 t'' =
           (\<lparr>captured_messenger = ref, captured_response_handle = nullptr\<rparr>,
            t''\<lparr>cerr := cerr t'' @ [duplicate_response_error]\<rparr>)"
  using assms
  by (simp add: ForwardToHandler_stored BinaryReply_call_first BinaryReply_call_consumed)

text \<open>The deferring handler keeps the closure; the closure is called after another
  message has been sent in between.\<close>

theorem deferred_reply_sends_once_witness:
  "ForwardToHandler 7
     \<lparr>message = [0x70, 0x69, 0x6E, 0x67], message_size = 4, response_handle = Ptr 9\<rparr> (Ptr 0)
     [0 \<mapsto> Some deferring_handler] (None, \<lparr>calls = [], cerr = []\<rparr>) =
     Inr (Some \<lparr>captured_messenger = 7, captured_response_handle = Ptr 9\<rparr>,
          \<lparr>calls = [], cerr = []\<rparr>) \<and>
   BinaryReply_call \<lparr>captured_messenger = 7, captured_response_handle = Ptr 9\<rparr>
     [0x70, 0x6F, 0x6E, 0x67] 4 \<lparr>calls = [MessengerSend 7 ''other'' [] 0], cerr = []\<rparr> =
     (\<lparr>captured_messenger = 7, captured_response_handle = nullptr\<rparr>,
      \<lparr>calls = [MessengerSend 7 ''other'' [] 0,
                MessengerSendResponse 7 (Ptr 9) [0x70, 0x6F, 0x6E, 0x67] 4], cerr = []\<rparr>)"
  using deferred_reply_sends_once [where mem = "[0 \<mapsto> Some deferring_handler]" and a = 0
      and f = deferring_handler and ref = 7 and w = "(None, \<lparr>calls = [], cerr = []\<rparr>)"
      and ?t1.0 = "\<lparr>calls = [], cerr = []\<rparr>"
      and msg = "\<lparr>message = [0x70, 0x69, 0x6E, 0x67], message_size = 4, response_handle = Ptr 9\<rparr>"
      and p' = "Some \<lparr>captured_messenger = 7, captured_response_handle = Ptr 9\<rparr>"
      and stored = id and b = "[0x70, 0x6F, 0x6E, 0x67]" and n = 4
      and t' = "\<lparr>calls = [MessengerSend 7 ''other'' [] 0], cerr = []\<rparr>"]
  by (simp add: deferring_handler_def)

text \<open>The claim as first stated fails at a message whose response handle is null: the
  saved closure, called after the handler has returned, sends nothing and writes the
  diagnostic.\<close>

theorem deferred_reply_null_handle_counterexample:
  "ForwardToHandler 7
     \<lparr>message = [0x70, 0x69, 0x6E, 0x67], message_size = 4, response_handle = nullptr\<rparr> (Ptr 0)
     [0 \<mapsto> Some deferring_handler] (None, \<lparr>calls = [], cerr = []\<rparr>) =
     Inr (Some \<lparr>captured_messenger = 7, captured_response_handle = nullptr\<rparr>,
          \<lparr>calls = [], cerr = []\<rparr>) \<and>
   BinaryReply_call \<lparr>captured_messenger = 7, captured_response_handle = nullptr\<rparr>
     [0x70, 0x6F, 0x6E, 0x67] 4 \<lparr>calls = [], cerr = []\<rparr> =
     (\<lparr>captured_messenger = 7, captured_response_handle = nullptr\<rparr>,
      \<lparr>calls = [], cerr = [duplicate_response_error]\<rparr>)"
  by (simp add: ForwardToHandler_stored deferring_handler_def BinaryReply_call_consumed)

text \<open>C10, as amended: the closure holds the response handle in its own captures.
  Calling one instance nulls the handle of that instance only: a copy taken before
  still holds the handle, and when the message's response handle is not null the copy
  makes a send-response call of its own on the same handle, so that two copies of one
  message's closure send twice. The guard is kept by each closure instance, not by
  the message.\<close>

theorem reply_copies_send_separately:
  assumes "mem a = Some (Some f)" and "response_handle msg \<noteq> nullptr"
  shows "ForwardToHandler ref msg (Ptr a) mem w =
           Inr (f (message msg) (message_size msg)
                  \<lparr>captured_messenger = ref, captured_response_handle = response_handle msg\<rparr> w) \<and>
         (let reply = \<lparr>captured_messenger = ref, captured_response_handle = response_handle msg\<rparr>;
              copy = reply
          in case BinaryReply_call reply b1 n1 t of
               (reply', t1) \<Rightarrow>
                 captured_response_handle reply' = nullptr \<and>
                 captured_response_handle copy = response_handle msg \<and>
                 BinaryReply_call copy b2 n2 t1 =
                   (\<lparr>captured_messenger = ref, captured_response_handle = nullptr\<rparr>,
                    t\<lparr>calls := calls t @
                      [MessengerSendResponse ref (response_handle msg) b1 n1,
                       MessengerSendResponse ref (response_handle msg) b2 n2]\<rparr>))"
  using assms
  by (simp add: ForwardToHandler_stored BinaryReply_call_first)

text \<open>A handler that copies the closure and replies through both copies: two
  send-response calls on handle 9, no diagnostic.\<close>

theorem reply_copies_send_separately_witness:
  "ForwardToHandler 7
     \<lparr>message = [0x70, 0x69, 0x6E, 0x67], message_size = 4, response_handle = Ptr 9\<rparr> (Ptr 0)
     [0 \<mapsto> Some (reply_on_copy_handler [0x70, 0x6F, 0x6E, 0x67] 4 [0x21] 1)]
     ((), \<lparr>calls = [], cerr = []\<rparr>) =
   Inr ((), \<lparr>calls = [MessengerSendResponse 7 (Ptr 9) [0x70, 0x6F, 0x6E, 0x67] 4,
                      MessengerSendResponse 7 (Ptr 9) [0x21] 1],
             cerr = []\<rparr>)"
  using reply_copies_send_separately [where
      mem = "[0 \<mapsto> Some (reply_on_copy_handler [0x70, 0x6F, 0x6E, 0x67] 4 [0x21] 1)]" and a = 0
      and f = "reply_on_copy_handler [0x70, 0x6F, 0x6E, 0x67] 4 [0x21] 1"
      and msg = "\<lparr>message = [0x70, 0x69, 0x6E, 0x67], message_size = 4, response_handle = Ptr 9\<rparr>"
      and ref = 7 and w = "((), \<lparr>calls = [], cerr = []\<rparr>)"
      and ?b1.0 = "[0x70, 0x6F, 0x6E, 0x67]" and ?n1.0 = 4 and t = "\<lparr>calls = [], cerr = []\<rparr>"
      and ?b2.0 = "[0x21]" and ?n2.0 = 1]
  by (simp add: reply_on_copy_handler_def Let_def split: prod.splits)

text \<open>The claim as first stated, that each copy can still send once, fails at a message
  whose response handle is null: the handler copies the closure and calls both copies,
  neither sends, and each writes the diagnostic.\<close>

theorem reply_copies_null_handle_counterexample:
  "ForwardToHandler 7
     \<lparr>message = [0x70, 0x69, 0x6E, 0x67], message_size = 4, response_handle = nullptr\<rparr> (Ptr 0)
     [0 \<mapsto> Some (reply_on_copy_handler [0x70, 0x6F, 0x6E, 0x67] 4 [0x21] 1)]
     ((), \<lparr>calls = [], cerr = []\<rparr>) =
   Inr ((), \<lparr>calls = [], cerr = [duplicate_response_error, duplicate_response_error]\<rparr>)"
  by (simp add: ForwardToHandler_stored reply_on_copy_handler_def BinaryReply_call_consumed)

subsection \<open>Dispatch\<close>

text \<open>C3: after \<open>SetMessageHandler c (Some f)\<close>, a message that the host delivers on the
  channel reaches the adaptor, and the adaptor's whole effect is one call of \<open>f\<close> on the
  message's bytes, the message's size and a reply closure holding the messenger and
  the message's response handle: the outcome is what that one call of \<open>f\<close> returns, so
  the adaptor sends nothing and changes nothing itself. The first part is the adaptor
  on its own, at any context pointer that holds \<open>f\<close>.\<close>

theorem adaptor_invokes_handler_once:
  fixes f :: "'p message_handler"
  assumes "SetMessageHandler c (Some f) (m, h) = (m', h')"
  shows "(\<forall>mem a ref w. mem a = Some (Some f) \<longrightarrow>
            ForwardToHandler ref msg (Ptr a) mem w =
              Inr (f (message msg) (message_size msg)
                     \<lparr>captured_messenger = ref, captured_response_handle = response_handle msg\<rparr> w)) \<and>
         (\<forall>p t. host_deliver m' (messenger_' m') (c_str c) msg (p, h'\<lparr>log := t\<rparr>) =
            (case f (message msg) (message_size msg)
                    \<lparr>captured_messenger = messenger_' m',
                     captured_response_handle = response_handle msg\<rparr> (p, t)
             of (p', t') \<Rightarrow> Inr (Dispatched (p', h'\<lparr>log := t'\<rparr>))))"
proof -
  from SetMessageHandler_registers [OF assms] obtain a where
    a: "nodes m' a = Some (Some f)" and ref: "messenger_' m' = messenger_' m" and
    h': "h' = FlutterDesktopMessengerSetCallback (messenger_' m) (c_str c)
               (Ptr ForwardToHandler_fn) (Ptr a) h"
    by blast
  have cb: "callbacks (h'\<lparr>log := t\<rparr>) (messenger_' m', c_str c) = Some (ForwardToHandler_fn, Ptr a)"
    for t
    by (simp add: h' ref callbacks_SetCallback)
  have "host_deliver m' (messenger_' m') (c_str c) msg (p, h'\<lparr>log := t\<rparr>) =
            (case f (message msg) (message_size msg)
                    \<lparr>captured_messenger = messenger_' m',
                     captured_response_handle = response_handle msg\<rparr> (p, t)
             of (p', t') \<Rightarrow> Inr (Dispatched (p', h'\<lparr>log := t'\<rparr>)))" for p t
    using host_deliver_registered [OF cb a] by simp
  then show ?thesis by (simp add: ForwardToHandler_stored)
qed

text \<open>A recording handler on channel ping, a fresh messenger and host: one message of
  four bytes is delivered, and the handler has been called once, with those four
  bytes, the size 4 and a closure on response handle 9; nothing was sent.\<close>

theorem adaptor_invokes_handler_once_witness:
  "SetMessageHandler ''ping'' (Some recording_handler) (BinaryMessengerImpl_new 7, host_new) =
     (\<lparr>messenger_' = 7, handlers_' = [''ping'' \<mapsto> 0], nodes = [0 \<mapsto> Some recording_handler],
       next_node = Suc 0\<rparr>,
      \<lparr>callbacks = [(7, ''ping'') \<mapsto> (ForwardToHandler_fn, Ptr 0)],
       log = \<lparr>calls = [MessengerSetCallback 7 ''ping'' (Ptr ForwardToHandler_fn) (Ptr 0)],
              cerr = []\<rparr>\<rparr>) \<and>
   host_deliver
     \<lparr>messenger_' = 7, handlers_' = [''ping'' \<mapsto> 0], nodes = [0 \<mapsto> Some recording_handler],
       next_node = Suc 0\<rparr> 7 ''ping''
     \<lparr>message = [0x70, 0x69, 0x6E, 0x67], message_size = 4, response_handle = Ptr 9\<rparr>
     ([], \<lparr>callbacks = [(7, ''ping'') \<mapsto> (ForwardToHandler_fn, Ptr 0)],
           log = \<lparr>calls = [], cerr = []\<rparr>\<rparr>) =
   Inr (Dispatched
     ([([0x70, 0x69, 0x6E, 0x67], 4, \<lparr>captured_messenger = 7, captured_response_handle = Ptr 9\<rparr>)],
      \<lparr>callbacks = [(7, ''ping'') \<mapsto> (ForwardToHandler_fn, Ptr 0)],
       log = \<lparr>calls = [], cerr = []\<rparr>\<rparr>))"
proof -
  note set = SetMessageHandler_new_eval [of recording_handler 7]
  from adaptor_invokes_handler_once [OF set, of
      "\<lparr>message = [0x70, 0x69, 0x6E, 0x67], message_size = 4, response_handle = Ptr 9\<rparr>"]
  have "host_deliver
     \<lparr>messenger_' = 7, handlers_' = [''ping'' \<mapsto> 0], nodes = [0 \<mapsto> Some recording_handler],
       next_node = Suc 0\<rparr> 7 ''ping''
     \<lparr>message = [0x70, 0x69, 0x6E, 0x67], message_size = 4, response_handle = Ptr 9\<rparr>
     ([], \<lparr>callbacks = [(7, ''ping'') \<mapsto> (ForwardToHandler_fn, Ptr 0)],
           log = \<lparr>calls = [], cerr = []\<rparr>\<rparr>) =
   Inr (Dispatched
     ([([0x70, 0x69, 0x6E, 0x67], 4, \<lparr>captured_messenger = 7, captured_response_handle = Ptr 9\<rparr>)],
      \<lparr>callbacks = [(7, ''ping'') \<mapsto> (ForwardToHandler_fn, Ptr 0)],
       log = \<lparr>calls = [], cerr = []\<rparr>\<rparr>))"
    by (simp add: recording_handler_def)
  with set show ?thesis by simp
qed

text \<open>C4: when channel \<open>c\<close> has the handler \<open>f1\<close>, at node \<open>a\<close>, \<open>SetMessageHandler c (Some f2)\<close>
  overwrites that node with \<open>f2\<close> and changes nothing else in the messenger, so \<open>f1\<close> is
  no longer stored for \<open>c\<close>; the only call made is the registration of the adaptor with
  the same context pointer, and nothing is written to the diagnostics. Every message
  delivered on the channel afterwards, at whatever trace, is one call of \<open>f2\<close>.\<close>

theorem SetMessageHandler_replaces:
  fixes f1 f2 :: "'p message_handler"
  assumes "handlers_' m c = Some a" and "nodes m a = Some (Some f1)"
    and set: "SetMessageHandler c (Some f2) (m, h) = (m', h')"
  shows "handler_of m' c = Some (Some f2) \<and>
         m' = m\<lparr>nodes := (nodes m)(a \<mapsto> Some f2)\<rparr> \<and>
         log h' = (log h)\<lparr>calls := calls (log h) @
           [MessengerSetCallback (messenger_' m) (c_str c) (Ptr ForwardToHandler_fn) (Ptr a)]\<rparr> \<and>
         (\<forall>msg p t. host_deliver m' (messenger_' m) (c_str c) msg (p, h'\<lparr>log := t\<rparr>) =
            (case f2 (message msg) (message_size msg)
                    \<lparr>captured_messenger = messenger_' m,
                     captured_response_handle = response_handle msg\<rparr> (p, t)
             of (p', t') \<Rightarrow> Inr (Dispatched (p', h'\<lparr>log := t'\<rparr>))))"
proof -
  from set assms(1) have m': "m' = m\<lparr>nodes := (nodes m)(a \<mapsto> Some f2)\<rparr>"
    and h': "h' = FlutterDesktopMessengerSetCallback (messenger_' m) (c_str c)
                    (Ptr ForwardToHandler_fn) (Ptr a) h"
    by (simp_all add: SetMessageHandler_present)
  have cb: "callbacks (h'\<lparr>log := t\<rparr>) (messenger_' m, c_str c) = Some (ForwardToHandler_fn, Ptr a)"
    for t
    by (simp add: h' callbacks_SetCallback)
  have node: "nodes m' a = Some (Some f2)"
    by (simp add: m')
  have "host_deliver m' (messenger_' m) (c_str c) msg (p, h'\<lparr>log := t\<rparr>) =
            (case f2 (message msg) (message_size msg)
                    \<lparr>captured_messenger = messenger_' m,
                     captured_response_handle = response_handle msg\<rparr> (p, t)
             of (p', t') \<Rightarrow> Inr (Dispatched (p', h'\<lparr>log := t'\<rparr>)))" for msg p t
    using host_deliver_registered [OF cb node] by simp
  moreover have "handler_of m' c = Some (Some f2)"
    using assms(1) by (simp add: handler_of_def m')
  ultimately show ?thesis
    using m' by (simp add: h' callbacks_SetCallback)
qed

text \<open>Channel ping holds a handler tagging \<open>first\<close>; it is replaced by one tagging \<open>second\<close>,
  and a message delivered afterwards leaves the tag \<open>second\<close> alone.\<close>

theorem SetMessageHandler_replaces_witness:
  "SetMessageHandler ''ping'' (Some (tagging_handler ''second''))
     (\<lparr>messenger_' = 7, handlers_' = [''ping'' \<mapsto> 0],
       nodes = [0 \<mapsto> Some (tagging_handler ''first'')], next_node = Suc 0\<rparr>, host_new) =
     (\<lparr>messenger_' = 7, handlers_' = [''ping'' \<mapsto> 0],
       nodes = [0 \<mapsto> Some (tagging_handler ''second'')], next_node = Suc 0\<rparr>,
      \<lparr>callbacks = [(7, ''ping'') \<mapsto> (ForwardToHandler_fn, Ptr 0)],
       log = \<lparr>calls = [MessengerSetCallback 7 ''ping'' (Ptr ForwardToHandler_fn) (Ptr 0)],
              cerr = []\<rparr>\<rparr>) \<and>
   host_deliver
     \<lparr>messenger_' = 7, handlers_' = [''ping'' \<mapsto> 0],
       nodes = [0 \<mapsto> Some (tagging_handler ''second'')], next_node = Suc 0\<rparr> 7 ''ping''
     \<lparr>message = [0x70, 0x69, 0x6E, 0x67], message_size = 4, response_handle = Ptr 9\<rparr>
     ([], \<lparr>callbacks = [(7, ''ping'') \<mapsto> (ForwardToHandler_fn, Ptr 0)],
           log = \<lparr>calls = [], cerr = []\<rparr>\<rparr>) =
   Inr (Dispatched
     ([''second''],
      \<lparr>callbacks = [(7, ''ping'') \<mapsto> (ForwardToHandler_fn, Ptr 0)],
       log = \<lparr>calls = [], cerr = []\<rparr>\<rparr>))"
proof -
  have set: "SetMessageHandler ''ping'' (Some (tagging_handler ''second''))
     (\<lparr>messenger_' = 7, handlers_' = [''ping'' \<mapsto> 0],
       nodes = [0 \<mapsto> Some (tagging_handler ''first'')], next_node = Suc 0\<rparr>, host_new) =
     (\<lparr>messenger_' = 7, handlers_' = [''ping'' \<mapsto> 0],
       nodes = [0 \<mapsto> Some (tagging_handler ''second'')], next_node = Suc 0\<rparr>,
      \<lparr>callbacks = [(7, ''ping'') \<mapsto> (ForwardToHandler_fn, Ptr 0)],
       log = \<lparr>calls = [MessengerSetCallback 7 ''ping'' (Ptr ForwardToHandler_fn) (Ptr 0)],
              cerr = []\<rparr>\<rparr>)"
    by (simp add: SetMessageHandler_present host_new_def FlutterDesktopMessengerSetCallback_def)
  from SetMessageHandler_replaces [OF _ _ set, of 0 "tagging_handler ''first''"]
  have "host_deliver
     \<lparr>messenger_' = 7, handlers_' = [''ping'' \<mapsto> 0],
       nodes = [0 \<mapsto> Some (tagging_handler ''second'')], next_node = Suc 0\<rparr> 7 ''ping''
     \<lparr>message = [0x70, 0x69, 0x6E, 0x67], message_size = 4, response_handle = Ptr 9\<rparr>
     ([], \<lparr>callbacks = [(7, ''ping'') \<mapsto> (ForwardToHandler_fn, Ptr 0)],
           log = \<lparr>calls = [], cerr = []\<rparr>\<rparr>) =
   Inr (Dispatched
     ([''second''],
      \<lparr>callbacks = [(7, ''ping'') \<mapsto> (ForwardToHandler_fn, Ptr 0)],
       log = \<lparr>calls = [], cerr = []\<rparr>\<rparr>))"
    by (simp add: tagging_handler_def)
  with set show ?thesis by simp
qed

text \<open>C5: \<open>SetMessageHandler c None\<close> is carried out like any other call and reports
  nothing. The key \<open>c\<close> leaves the map and its node is destroyed; the one call made tells
  the host to set a null callback with a null context for the channel, so the host
  retains no callback for it; a message that arrives on the channel afterwards, at
  whatever trace, is dropped by the host without reaching a handler.\<close>

theorem SetMessageHandler_empty_unregisters:
  assumes set: "SetMessageHandler c None (m, h) = (m', h')"
  shows "handlers_' m' c = None \<and> handler_of m' c = None \<and>
         (\<forall>a. handlers_' m c = Some a \<longrightarrow> nodes m' a = None) \<and>
         callbacks h' (messenger_' m, c_str c) = None \<and>
         log h' = (log h)\<lparr>calls := calls (log h) @
           [MessengerSetCallback (messenger_' m) (c_str c) nullptr nullptr]\<rparr> \<and>
         (\<forall>msg p t. host_deliver m' (messenger_' m) (c_str c) msg (p, h'\<lparr>log := t\<rparr>) = Inr Dropped)"
proof -
  from set have m': "m' = handlers_erase c m"
    and h': "h' = FlutterDesktopMessengerSetCallback (messenger_' m) (c_str c) nullptr nullptr h"
    by (simp_all add: SetMessageHandler_empty)
  have gone: "handlers_' m' c = None"
    by (simp add: m' handlers_erase_def split: option.splits)
  have "nodes m' a = None" if "handlers_' m c = Some a" for a
    using that by (simp add: m' handlers_erase_def)
  moreover have "host_deliver m' (messenger_' m) (c_str c) msg (p, h'\<lparr>log := t\<rparr>) = Inr Dropped"
    for msg p t
    by (simp add: host_deliver_def h' callbacks_SetCallback)
  ultimately show ?thesis
    using gone by (simp add: handler_of_def h' callbacks_SetCallback)
qed

text \<open>Channel ping holds a handler and is registered with the host; after the empty
  handler is set, map and callbacks are empty and a message on ping is dropped.\<close>

theorem SetMessageHandler_empty_unregisters_witness:
  "SetMessageHandler ''ping'' None
     (\<lparr>messenger_' = 7, handlers_' = [''ping'' \<mapsto> 0],
       nodes = [0 \<mapsto> Some (tagging_handler ''first'')], next_node = Suc 0\<rparr>,
      \<lparr>callbacks = [(7, ''ping'') \<mapsto> (ForwardToHandler_fn, Ptr 0)],
       log = \<lparr>calls = [], cerr = []\<rparr>\<rparr>) =
     (\<lparr>messenger_' = 7, handlers_' = Map.empty, nodes = Map.empty, next_node = Suc 0\<rparr>,
      \<lparr>callbacks = Map.empty,
       log = \<lparr>calls = [MessengerSetCallback 7 ''ping'' nullptr nullptr], cerr = []\<rparr>\<rparr>) \<and>
   host_deliver
     \<lparr>messenger_' = 7, handlers_' = Map.empty, nodes = Map.empty, next_node = Suc 0\<rparr> 7 ''ping''
     \<lparr>message = [0x70, 0x69, 0x6E, 0x67], message_size = 4, response_handle = Ptr 9\<rparr>
     ([] :: string list, \<lparr>callbacks = Map.empty, log = \<lparr>calls = [], cerr = []\<rparr>\<rparr>) =
   Inr Dropped"
proof -
  have set: "SetMessageHandler ''ping'' None
     (\<lparr>messenger_' = 7, handlers_' = [''ping'' \<mapsto> 0],
       nodes = [0 \<mapsto> Some (tagging_handler ''first'')], next_node = Suc 0\<rparr>,
      \<lparr>callbacks = [(7, ''ping'') \<mapsto> (ForwardToHandler_fn, Ptr 0)],
       log = \<lparr>calls = [], cerr = []\<rparr>\<rparr>) =
     (\<lparr>messenger_' = 7, handlers_' = Map.empty, nodes = Map.empty, next_node = Suc 0\<rparr>,
      \<lparr>callbacks = Map.empty,
       log = \<lparr>calls = [MessengerSetCallback 7 ''ping'' nullptr nullptr], cerr = []\<rparr>\<rparr>)"
    by (simp add: SetMessageHandler_empty handlers_erase_def FlutterDesktopMessengerSetCallback_def)
  from SetMessageHandler_empty_unregisters [OF set] set
  show ?thesis by simp
qed

subsection \<open>The stored handler and its address\<close>

text \<open>C2: in a well-formed messenger, \<open>SetMessageHandler c (Some f)\<close> passes through three
  states. After the store statement the entry of \<open>c\<close> is at an address \<open>a\<close> and holds \<open>f\<close>,
  while the host is still as it was: the handler is in the map before the host is
  called. Taking the address changes nothing. The registration is the last statement:
  it is made in that state, with \<open>a\<close> as the context, and changes the host only, which
  now retains \<open>a\<close> for the channel. A later call for the same key writes the new handler
  to the same address and registers the same pointer. After any later calls that do not
  give \<open>c\<close> the empty handler, the entry of \<open>c\<close> is still at \<open>a\<close> and holds a callable. And
  when the contexts that the host retained before the call were valid, they are valid
  in each of the three states and after any later calls at all: what the host retains
  is always the address of a live entry.\<close>

theorem SetMessageHandler_context_pointer_stable:
  assumes wf: "wf_handlers m"
    and set: "SetMessageHandler c (Some f) (m, h) = (m', h')"
  shows "\<exists>a. SetMessageHandler_states c (Some f) (m, h) = [(m', h), (m', h), (m', h')] \<and>
           handlers_' m' c = Some a \<and> nodes m' a = Some (Some f) \<and>
           deref (nodes m') (Ptr a) = Some (Some f) \<and>
           h' = FlutterDesktopMessengerSetCallback (messenger_' m') (c_str c)
                  (Ptr ForwardToHandler_fn) (Ptr a) h \<and>
           callbacks h' (messenger_' m', c_str c) = Some (ForwardToHandler_fn, Ptr a) \<and>
           (\<forall>f2 h2. SetMessageHandler c (Some f2) (m', h2) =
              (m'\<lparr>nodes := (nodes m')(a \<mapsto> Some f2)\<rparr>,
               FlutterDesktopMessengerSetCallback (messenger_' m') (c_str c)
                 (Ptr ForwardToHandler_fn) (Ptr a) h2)) \<and>
           (\<forall>ops. (\<forall>(d, x) \<in> set ops. d = c \<longrightarrow> x \<noteq> None) \<longrightarrow>
              entry_live c a (fst (SetMessageHandler_calls ops (m', h')))) \<and>
           (contexts_valid (m, h) \<longrightarrow>
              (\<forall>s \<in> set (SetMessageHandler_states c (Some f) (m, h)). contexts_valid s) \<and>
              (\<forall>ops. contexts_valid (SetMessageHandler_calls ops (m', h'))))"
proof -
  from SetMessageHandler_registers [OF set] obtain a where
    a: "handlers_' m' c = Some a" "nodes m' a = Some (Some f)" and ref: "messenger_' m' = messenger_' m"
    and h': "h' = FlutterDesktopMessengerSetCallback (messenger_' m) (c_str c)
                    (Ptr ForwardToHandler_fn) (Ptr a) h"
    by blast
  note states = SetMessageHandler_states_Some [OF set]
  have wf': "wf_handlers m'"
    using wf_handlers_SetMessageHandler [OF wf, of c "Some f" h] set by simp
  have cb: "callbacks h' (messenger_' m', c_str c) = Some (ForwardToHandler_fn, Ptr a)"
    by (simp add: h' ref callbacks_SetCallback)
  have live: "entry_live c a (fst (m', h'))"
    using wf' a by (simp add: entry_live_def)
  have stays: "entry_live c a (fst (SetMessageHandler_calls ops (m', h')))"
    if "\<forall>(d, x) \<in> set ops. d = c \<longrightarrow> x \<noteq> None" for ops
    by (rule entry_live_calls [OF live that])
  have during: "\<forall>s \<in> set (SetMessageHandler_states c (Some f) (m, h)). contexts_valid s"
    if valid: "contexts_valid (m, h)"
  proof -
    have "contexts_valid (m', h)"
      using contexts_valid_stored [OF valid, of c f] set by simp
    moreover have "contexts_valid (m', h')"
      using contexts_valid_step [OF valid, of c "Some f"] set by simp
    ultimately show ?thesis
      by (simp add: states)
  qed
  have after: "contexts_valid (SetMessageHandler_calls ops (m', h'))" if "contexts_valid (m, h)" for ops
  proof -
    have "contexts_valid (m', h')"
      using contexts_valid_step [OF that, of c "Some f"] set by simp
    then show ?thesis
      by (rule contexts_valid_calls)
  qed
  have same: "SetMessageHandler c (Some f2) (m', h2) =
              (m'\<lparr>nodes := (nodes m')(a \<mapsto> Some f2)\<rparr>,
               FlutterDesktopMessengerSetCallback (messenger_' m') (c_str c)
                 (Ptr ForwardToHandler_fn) (Ptr a) h2)" for f2 h2
    using a by (simp add: SetMessageHandler_present)
  have "deref (nodes m') (Ptr a) = Some (Some f)"
    using a by (simp add: deref_def)
  with states a cb h' ref stays during after same show ?thesis
    by auto
qed

text \<open>On a fresh messenger the handler of ping is stored at address 0, and only then is
  the host called. Then pong is registered, the handler of ping is replaced, and pong
  is unregistered: the entry of ping is still at address 0, and the host's contexts
  are valid.\<close>

theorem SetMessageHandler_context_pointer_stable_witness:
  "contexts_valid (BinaryMessengerImpl_new 7 :: string list BinaryMessengerImpl, host_new) \<and>
   SetMessageHandler_states ''ping'' (Some (tagging_handler ''first''))
       (BinaryMessengerImpl_new 7, host_new) =
     [(\<lparr>messenger_' = 7, handlers_' = [''ping'' \<mapsto> 0],
        nodes = [0 \<mapsto> Some (tagging_handler ''first'')], next_node = Suc 0\<rparr>, host_new),
      (\<lparr>messenger_' = 7, handlers_' = [''ping'' \<mapsto> 0],
        nodes = [0 \<mapsto> Some (tagging_handler ''first'')], next_node = Suc 0\<rparr>, host_new),
      (\<lparr>messenger_' = 7, handlers_' = [''ping'' \<mapsto> 0],
        nodes = [0 \<mapsto> Some (tagging_handler ''first'')], next_node = Suc 0\<rparr>,
       \<lparr>callbacks = [(7, ''ping'') \<mapsto> (ForwardToHandler_fn, Ptr 0)],
        log = \<lparr>calls = [MessengerSetCallback 7 ''ping'' (Ptr ForwardToHandler_fn) (Ptr 0)],
               cerr = []\<rparr>\<rparr>)] \<and>
   SetMessageHandler ''ping'' (Some (tagging_handler ''first'')) (BinaryMessengerImpl_new 7, host_new) =
     (\<lparr>messenger_' = 7, handlers_' = [''ping'' \<mapsto> 0],
       nodes = [0 \<mapsto> Some (tagging_handler ''first'')], next_node = Suc 0\<rparr>,
      \<lparr>callbacks = [(7, ''ping'') \<mapsto> (ForwardToHandler_fn, Ptr 0)],
       log = \<lparr>calls = [MessengerSetCallback 7 ''ping'' (Ptr ForwardToHandler_fn) (Ptr 0)],
              cerr = []\<rparr>\<rparr>) \<and>
   entry_live ''ping'' 0
     (fst (SetMessageHandler_calls
        [(''pong'', Some (tagging_handler ''second'')),
         (''ping'', Some (tagging_handler ''third'')),
         (''pong'', None)]
        (\<lparr>messenger_' = 7, handlers_' = [''ping'' \<mapsto> 0],
          nodes = [0 \<mapsto> Some (tagging_handler ''first'')], next_node = Suc 0\<rparr>,
         \<lparr>callbacks = [(7, ''ping'') \<mapsto> (ForwardToHandler_fn, Ptr 0)],
          log = \<lparr>calls = [MessengerSetCallback 7 ''ping'' (Ptr ForwardToHandler_fn) (Ptr 0)],
                 cerr = []\<rparr>\<rparr>))) \<and>
   contexts_valid
     (SetMessageHandler_calls
        [(''pong'', Some (tagging_handler ''second'')),
         (''ping'', Some (tagging_handler ''third'')),
         (''pong'', None)]
        (\<lparr>messenger_' = 7, handlers_' = [''ping'' \<mapsto> 0],
          nodes = [0 \<mapsto> Some (tagging_handler ''first'')], next_node = Suc 0\<rparr>,
         \<lparr>callbacks = [(7, ''ping'') \<mapsto> (ForwardToHandler_fn, Ptr 0)],
          log = \<lparr>calls = [MessengerSetCallback 7 ''ping'' (Ptr ForwardToHandler_fn) (Ptr 0)],
                 cerr = []\<rparr>\<rparr>)) \<and>
   fst (SetMessageHandler_calls
        [(''pong'', Some (tagging_handler ''second'')),
         (''ping'', Some (tagging_handler ''third'')),
         (''pong'', None)]
        (\<lparr>messenger_' = 7, handlers_' = [''ping'' \<mapsto> 0],
          nodes = [0 \<mapsto> Some (tagging_handler ''first'')], next_node = Suc 0\<rparr>,
         \<lparr>callbacks = [(7, ''ping'') \<mapsto> (ForwardToHandler_fn, Ptr 0)],
          log = \<lparr>calls = [MessengerSetCallback 7 ''ping'' (Ptr ForwardToHandler_fn) (Ptr 0)],
                 cerr = []\<rparr>\<rparr>)) =
     \<lparr>messenger_' = 7, handlers_' = [''ping'' \<mapsto> 0],
       nodes = [0 \<mapsto> Some (tagging_handler ''third'')], next_node = 2\<rparr>"
proof -
  have final: "fst (SetMessageHandler_calls
        [(''pong'', Some (tagging_handler ''second'')),
         (''ping'', Some (tagging_handler ''third'')),
         (''pong'', None)]
        (\<lparr>messenger_' = 7, handlers_' = [''ping'' \<mapsto> 0],
          nodes = [0 \<mapsto> Some (tagging_handler ''first'')], next_node = Suc 0\<rparr>,
         \<lparr>callbacks = [(7, ''ping'') \<mapsto> (ForwardToHandler_fn, Ptr 0)],
          log = \<lparr>calls = [MessengerSetCallback 7 ''ping'' (Ptr ForwardToHandler_fn) (Ptr 0)],
                 cerr = []\<rparr>\<rparr>)) =
     \<lparr>messenger_' = 7, handlers_' = [''ping'' \<mapsto> 0],
       nodes = [0 \<mapsto> Some (tagging_handler ''third'')], next_node = 2\<rparr>"
    by (simp add: SetMessageHandler_unfold handlers_subscript_def handlers_erase_def fun_upd_twist)
  note valid = contexts_valid_new [of 7, where ?'a = "string list"]
  note set = SetMessageHandler_new_eval [of "tagging_handler ''first''" 7]
  let ?s = "(\<lparr>messenger_' = 7, handlers_' = [''ping'' \<mapsto> 0],
            nodes = [0 \<mapsto> Some (tagging_handler ''first'')], next_node = Suc 0\<rparr>,
           \<lparr>callbacks = [(7, ''ping'') \<mapsto> (ForwardToHandler_fn, Ptr 0)],
            log = \<lparr>calls = [MessengerSetCallback 7 ''ping'' (Ptr ForwardToHandler_fn) (Ptr 0)],
                   cerr = []\<rparr>\<rparr>)"
  from SetMessageHandler_context_pointer_stable [OF wf_handlers_new set] valid obtain a where
    states: "SetMessageHandler_states ''ping'' (Some (tagging_handler ''first''))
       (BinaryMessengerImpl_new 7, host_new) = [(fst ?s, host_new), (fst ?s, host_new), ?s]"
    and a: "[''ping'' \<mapsto> (0::nat)] ''ping'' = Some a"
    and live: "\<And>ops. (\<forall>(d, x) \<in> set ops. d = ''ping'' \<longrightarrow> x \<noteq> None) \<Longrightarrow>
      entry_live ''ping'' a (fst (SetMessageHandler_calls ops ?s))"
    and ctx: "\<And>ops. contexts_valid (SetMessageHandler_calls ops ?s)"
    by auto
  from a have "a = 0" by simp
  moreover have "\<forall>(d, x) \<in> set [(''pong'', Some (tagging_handler ''second'')),
         (''ping'', Some (tagging_handler ''third'')),
         (''pong'', None)]. d = ''ping'' \<longrightarrow> x \<noteq> None"
    by simp
  ultimately have "entry_live ''ping'' 0
     (fst (SetMessageHandler_calls
        [(''pong'', Some (tagging_handler ''second'')),
         (''ping'', Some (tagging_handler ''third'')),
         (''pong'', None)] ?s))"
    using live by blast
  moreover have "SetMessageHandler_states ''ping'' (Some (tagging_handler ''first''))
       (BinaryMessengerImpl_new 7, host_new) =
     [(\<lparr>messenger_' = 7, handlers_' = [''ping'' \<mapsto> 0],
        nodes = [0 \<mapsto> Some (tagging_handler ''first'')], next_node = Suc 0\<rparr>, host_new),
      (\<lparr>messenger_' = 7, handlers_' = [''ping'' \<mapsto> 0],
        nodes = [0 \<mapsto> Some (tagging_handler ''first'')], next_node = Suc 0\<rparr>, host_new),
      (\<lparr>messenger_' = 7, handlers_' = [''ping'' \<mapsto> 0],
        nodes = [0 \<mapsto> Some (tagging_handler ''first'')], next_node = Suc 0\<rparr>,
       \<lparr>callbacks = [(7, ''ping'') \<mapsto> (ForwardToHandler_fn, Ptr 0)],
        log = \<lparr>calls = [MessengerSetCallback 7 ''ping'' (Ptr ForwardToHandler_fn) (Ptr 0)],
               cerr = []\<rparr>\<rparr>)]"
    using states by simp
  ultimately show ?thesis
    using valid set ctx final by blast
qed

text \<open>C9: in a well-formed messenger, \<open>SetMessageHandler c handler\<close>, whatever the handler,
  leaves every other key \<open>d\<close> with the node it had and that node with the value it had,
  so the handler stored for \<open>d\<close> and its address are as before; the messenger reference
  is as before; and \<open>Send\<close> returns the messenger it was given.\<close>

theorem SetMessageHandler_frame:
  assumes "wf_handlers m" and "d \<noteq> c"
  shows "handlers_' (fst (SetMessageHandler c handler (m, h))) d = handlers_' m d \<and>
         handler_of (fst (SetMessageHandler c handler (m, h))) d = handler_of m d \<and>
         (\<forall>a. handlers_' m d = Some a \<longrightarrow>
            nodes (fst (SetMessageHandler c handler (m, h))) a = nodes m a) \<and>
         messenger_' (fst (SetMessageHandler c handler (m, h))) = messenger_' m \<and>
         fst (Send c msg msg_size (m, h)) = m"
proof -
  note other = SetMessageHandler_other_channel [OF assms, of handler h]
  have "handler_of (fst (SetMessageHandler c handler (m, h))) d = handler_of m d"
    using other by (auto simp: handler_of_def split: option.splits)
  with other show ?thesis
    by (simp add: SetMessageHandler_messenger Send_def)
qed

text \<open>Channel ping holds a handler at address 0; registering pong leaves ping's entry,
  its address and the messenger reference alone.\<close>

theorem SetMessageHandler_frame_witness:
  "wf_handlers \<lparr>messenger_' = 7, handlers_' = [''ping'' \<mapsto> 0],
       nodes = [0 \<mapsto> Some (tagging_handler ''first'')], next_node = Suc 0\<rparr> \<and>
   handlers_' (fst (SetMessageHandler ''pong'' (Some (tagging_handler ''second''))
     (\<lparr>messenger_' = 7, handlers_' = [''ping'' \<mapsto> 0],
       nodes = [0 \<mapsto> Some (tagging_handler ''first'')], next_node = Suc 0\<rparr>, host_new))) ''ping'' = Some 0 \<and>
   nodes (fst (SetMessageHandler ''pong'' (Some (tagging_handler ''second''))
     (\<lparr>messenger_' = 7, handlers_' = [''ping'' \<mapsto> 0],
       nodes = [0 \<mapsto> Some (tagging_handler ''first'')], next_node = Suc 0\<rparr>, host_new))) 0 =
     Some (Some (tagging_handler ''first'')) \<and>
   messenger_' (fst (SetMessageHandler ''pong'' (Some (tagging_handler ''second''))
     (\<lparr>messenger_' = 7, handlers_' = [''ping'' \<mapsto> 0],
       nodes = [0 \<mapsto> Some (tagging_handler ''first'')], next_node = Suc 0\<rparr>, host_new))) = 7"
proof -
  have "wf_handlers (fst (SetMessageHandler ''ping'' (Some (tagging_handler ''first''))
          (BinaryMessengerImpl_new 7, host_new)))"
    by (rule wf_handlers_SetMessageHandler [OF wf_handlers_new])
  then have wf: "wf_handlers \<lparr>messenger_' = 7, handlers_' = [''ping'' \<mapsto> 0],
       nodes = [0 \<mapsto> Some (tagging_handler ''first'')], next_node = Suc 0\<rparr>"
    by (simp add: SetMessageHandler_new_eval)
  have ne: "''ping'' \<noteq> ''pong''" by simp
  from SetMessageHandler_frame [OF wf ne, of "Some (tagging_handler ''second'')" host_new] wf
  show ?thesis by simp
qed

subsection \<open>Textures\<close>

text \<open>C8, as amended: for every texture pointer and every host, \<open>RegisterTexture\<close> makes the
  host's registration call with the registrar reference, the pixel-fetch callback and
  the texture pointer as context, and returns what that call returns, unchanged: the
  identifier is non-negative exactly when the host's is. The callback, given a width,
  a height and a pointer to a texture, returns what the texture's \<open>CopyPixelBuffer\<close>
  returns for that width and height.\<close>

theorem RegisterTexture_passes_through:
  fixes FlutterDesktopRegisterExternalTexture ::
    "FlutterDesktopTextureRegistrarRef
       \<Rightarrow> ((addr \<rightharpoonup> 'b Texture) \<Rightarrow> size_t \<Rightarrow> size_t \<Rightarrow> addr ptr \<Rightarrow> fault + 'b)
       \<Rightarrow> addr ptr \<Rightarrow> 'h \<Rightarrow> int64_t \<times> 'h"
  shows "RegisterTexture FlutterDesktopRegisterExternalTexture self texture h =
           FlutterDesktopRegisterExternalTexture (texture_registrar_ref_' self) callback texture h \<and>
         (\<forall>(mem :: addr \<rightharpoonup> 'b Texture) a t width height. mem a = Some t \<longrightarrow>
            callback mem width height (Ptr a) = Inr (CopyPixelBuffer t width height)) \<and>
         (0 \<le> sint (fst (RegisterTexture FlutterDesktopRegisterExternalTexture self texture h)) \<longleftrightarrow>
          0 \<le> sint (fst (FlutterDesktopRegisterExternalTexture (texture_registrar_ref_' self)
                            callback texture h)))"
  by (simp add: RegisterTexture_def callback_def deref_def split: prod.splits)

text \<open>A host that numbers textures from its state, and a texture that answers with the
  size it was asked for.\<close>

theorem RegisterTexture_passes_through_witness:
  "RegisterTexture
     (\<lambda>registrar (cb :: (addr \<rightharpoonup> (size_t \<times> size_t) Texture) \<Rightarrow> size_t \<Rightarrow> size_t \<Rightarrow> addr ptr
          \<Rightarrow> fault + size_t \<times> size_t) user_data h. (word_of_nat h, Suc h))
     \<lparr>texture_registrar_ref_' = 1\<rparr> (Ptr 3) 5 = (5, 6) \<and>
   callback [3 \<mapsto> \<lparr>CopyPixelBuffer = (\<lambda>width height. (width, height))\<rparr>] 640 480 (Ptr 3) =
     Inr (640, 480)"
proof -
  note pass = RegisterTexture_passes_through [of
      "\<lambda>registrar (cb :: (addr \<rightharpoonup> (size_t \<times> size_t) Texture) \<Rightarrow> size_t \<Rightarrow> size_t \<Rightarrow> addr ptr
          \<Rightarrow> fault + size_t \<times> size_t) user_data h. (word_of_nat h, Suc h)"
      "\<lparr>texture_registrar_ref_' = 1\<rparr>" "Ptr 3" 5]
  from pass have cb: "mem a = Some t \<Longrightarrow>
      callback mem width height (Ptr a) = Inr (CopyPixelBuffer t width height)"
    for mem :: "addr \<rightharpoonup> (size_t \<times> size_t) Texture" and a t width height
    by blast
  from pass have "RegisterTexture
     (\<lambda>registrar (cb :: (addr \<rightharpoonup> (size_t \<times> size_t) Texture) \<Rightarrow> size_t \<Rightarrow> size_t \<Rightarrow> addr ptr
          \<Rightarrow> fault + size_t \<times> size_t) user_data h. (word_of_nat h, Suc h))
     \<lparr>texture_registrar_ref_' = 1\<rparr> (Ptr 3) 5 = (5, 6)"
    by simp
  with cb [of "[3 \<mapsto> \<lparr>CopyPixelBuffer = (\<lambda>width height. (width, height))\<rparr>]" 3
      "\<lparr>CopyPixelBuffer = (\<lambda>width height. (width, height))\<rparr>" 640 480]
  show ?thesis by simp
qed

text \<open>The claim as first stated, that the identifier returned is never negative, fails
  at a host whose registration call returns the sentinel -1: the wrapper returns -1.\<close>

theorem RegisterTexture_negative_counterexample:
  "sint (fst (RegisterTexture
                (\<lambda>registrar (cb :: (addr \<rightharpoonup> unit Texture) \<Rightarrow> size_t \<Rightarrow> size_t \<Rightarrow> addr ptr \<Rightarrow> fault + unit)
                   user_data h. (- 1, h))
                \<lparr>texture_registrar_ref_' = 1\<rparr> (Ptr 0) ())) = - 1"
  by (simp add: RegisterTexture_def)

end
